theory Spec2Isabelle
  imports Complex_Main "HOL-Library.Signed_Division"
begin

section \<open>The camera model of src/mvs/image.cc\<close>

text \<open>
  Conventions of the embedding.

  \<^item> A C array (\<open>double K[9]\<close>, \<open>float P[16]\<close>, ...) is a list, read by index in
    row-major order exactly as the source reads it.
  \<^item> A \<open>double\<close> or \<open>float\<close> value is a real number. Arithmetic on \<open>double\<close> values
    is the exact arithmetic: its rounding is not modelled.
  \<^item> A division by zero leaves an infinity or a NaN in the result. An array or scalar
    that holds such a value is modelled by \<open>None\<close>; a finite one by \<open>Some\<close>.
  \<^item> The conversion to \<open>float\<close> is the parameter \<open>f32\<close> of every function that
    performs it; nothing is assumed about it. In \<open>Rescale\<close> and \<open>Downsize\<close>, where
    single-precision results decide the new size, each conversion of a \<open>size_t\<close> to
    \<open>float\<close> and each single-precision product or quotient is rounded by \<open>f32\<close>.
    \<open>ComputeRelativePose\<close> is stated over the exact operations. \<open>float32\<close> below is
    the rounding to the nearest binary32 value, for use as \<open>f32\<close>.
  \<^item> \<open>size_t\<close> is \<open>nat\<close>, \<open>int\<close> is \<open>int\<close> with the truncating remainder \<open>smod\<close> for
    the operator \<open>%\<close>.
  \<^item> The class \<open>Bitmap\<close> is not part of the file. The image record is polymorphic
    in it, and the two members the file calls (\<open>Data() != nullptr\<close> and
    \<open>Rescale(w, h)\<close>) are parameters \<open>has_data\<close> and \<open>bm_rescale\<close>.
\<close>

subsection \<open>Fixed-size matrix operations (Eigen)\<close>

text \<open>The product of an \<open>n \<times> m\<close> and an \<open>m \<times> p\<close> row-major matrix.\<close>

definition mat_mul :: "nat \<Rightarrow> nat \<Rightarrow> nat \<Rightarrow> real list \<Rightarrow> real list \<Rightarrow> real list" where
  "mat_mul n m p A B =
     concat (map (\<lambda>i. map (\<lambda>j. (\<Sum>k\<leftarrow>[0..<m]. A ! (i * m + k) * B ! (k * p + j))) [0..<p])
                 [0..<n])"

text \<open>\<open>A.transpose()\<close> of an \<open>n \<times> m\<close> row-major matrix.\<close>

definition transpose_mat :: "nat \<Rightarrow> nat \<Rightarrow> real list \<Rightarrow> real list" where
  "transpose_mat n m A = concat (map (\<lambda>j. map (\<lambda>i. A ! (i * m + j)) [0..<n]) [0..<m])"

text \<open>\<open>A.maxCoeff()\<close>: the largest coefficient, with its sign.\<close>

definition maxCoeff :: "real list \<Rightarrow> real" where
  "maxCoeff A = fold max (tl A) (hd A)"

text \<open>
  The \<open>3 \<times> 4\<close> matrix whose \<open>leftCols<3>()\<close> are the \<open>3 \<times> 3\<close> matrix \<open>R\<close> and whose
  \<open>rightCols<1>()\<close> is the vector \<open>T\<close>.
\<close>

definition cols_R_T :: "real list \<Rightarrow> real list \<Rightarrow> real list" where
  "cols_R_T R T = concat (map (\<lambda>i. [R ! (3 * i), R ! (3 * i + 1), R ! (3 * i + 2), T ! i]) [0..<3])"

text \<open>
  \<open>A.inverse()\<close> of a fixed-size \<open>4 \<times> 4\<close> matrix. Eigen computes it from the cofactors
  and the determinant; with a zero determinant the division yields no finite matrix.
\<close>

definition submatrix :: "real list \<Rightarrow> nat \<Rightarrow> nat \<Rightarrow> real list" where
  "submatrix A r c = [A ! (4 * i + j). i \<leftarrow> [0..<4], i \<noteq> r, j \<leftarrow> [0..<4], j \<noteq> c]"

definition det3 :: "real list \<Rightarrow> real" where
  "det3 M = M ! 0 * (M ! 4 * M ! 8 - M ! 5 * M ! 7)
          - M ! 1 * (M ! 3 * M ! 8 - M ! 5 * M ! 6)
          + M ! 2 * (M ! 3 * M ! 7 - M ! 4 * M ! 6)"

definition cofactor :: "real list \<Rightarrow> nat \<Rightarrow> nat \<Rightarrow> real" where
  "cofactor A r c = (- 1) ^ (r + c) * det3 (submatrix A r c)"

definition det4 :: "real list \<Rightarrow> real" where
  "det4 A = (\<Sum>c\<leftarrow>[0..<4]. A ! c * cofactor A 0 c)"

definition adjugate :: "real list \<Rightarrow> real list" where
  "adjugate A = concat (map (\<lambda>r. map (\<lambda>c. cofactor A c r) [0..<4]) [0..<4])"

definition inverse4 :: "real list \<Rightarrow> real list option" where
  "inverse4 A = (let d = det4 A in if d = 0 then None else Some (map (\<lambda>e. e / d) (adjugate A)))"

definition identity4 :: "real list" where
  "identity4 = [1, 0, 0, 0,  0, 1, 0, 0,  0, 0, 1, 0,  0, 0, 0, 1]"

definition identity3 :: "real list" where
  "identity3 = [1, 0, 0,  0, 1, 0,  0, 0, 1]"

subsection \<open>The helper functions of the file\<close>

text \<open>
  \<open>Compute4by4ProjectionMatrix\<close> (lines 43-70). The two outputs are written one after
  the other, so \<open>P\<close> can be finite while \<open>inv_P\<close> is not.
\<close>

definition Compute4by4ProjectionMatrix ::
  "real list \<Rightarrow> real list \<Rightarrow> real list \<Rightarrow> real list \<Rightarrow> real list option \<times> real list option" where
  "Compute4by4ProjectionMatrix K R T last_row =
     (let P_3by4 = mat_mul 3 3 4 K (cols_R_T R T);
          P_4by4 = P_3by4 @ map (\<lambda>j. last_row ! j) [0..<4];
          m = maxCoeff P_4by4
      in if m = 0 then (None, None)
         else
           let P = map (\<lambda>e. e * (10 / m)) P_4by4
           in (case inverse4 P of
                 None \<Rightarrow> (Some P, None)
               | Some inv_P_4by4 \<Rightarrow>
                   let m' = maxCoeff inv_P_4by4
                   in if m' = 0 then (Some P, None)
                      else (Some P, Some (map (\<lambda>e. e * (10 / m')) inv_P_4by4))))"

text \<open>\<open>ComputeProjectionCenter\<close> (lines 73-81): \<open>C = -R.transpose() * T\<close>.\<close>

definition ComputeProjectionCenter :: "real list \<Rightarrow> real list \<Rightarrow> real list" where
  "ComputeProjectionCenter R T = mat_mul 3 3 1 (map uminus (transpose_mat 3 3 R)) T"

text \<open>\<open>DoubleArrToFloatArr\<close> (lines 84-88).\<close>

definition DoubleArrToFloatArr :: "(real \<Rightarrow> real) \<Rightarrow> real list \<Rightarrow> nat \<Rightarrow> real list" where
  "DoubleArrToFloatArr f32 double_arr cnt = map (\<lambda>i. f32 (double_arr ! i)) [0..<cnt]"

subsection \<open>The class Image\<close>

text \<open>
  The members \<open>path_\<close>, \<open>width_\<close>, \<open>height_\<close>, \<open>K_\<close>, \<open>R_\<close>, \<open>T_\<close>, \<open>last_row_\<close>
  and \<open>bitmap_\<close> are the fields \<open>m_path\<close>, ..., \<open>m_bitmap\<close>: a name of Isabelle
  cannot end with an underscore.
\<close>

record 'b Image =
  m_path :: string
  m_width :: nat
  m_height :: nat
  m_K :: "real list"
  m_R :: "real list"
  m_T :: "real list"
  m_last_row :: "real list"
  m_bitmap :: 'b

text \<open>\<open>SetK\<close> (lines 106-108) and \<open>SetLastRow\<close> (lines 119-121) copy their argument.\<close>

definition SetK :: "real list \<Rightarrow> 'b Image \<Rightarrow> 'b Image" where
  "SetK K s = s\<lparr>m_K := map (\<lambda>i. K ! i) [0..<9]\<rparr>"

definition SetLastRow :: "real list \<Rightarrow> 'b Image \<Rightarrow> 'b Image" where
  "SetLastRow last_row s = s\<lparr>m_last_row := map (\<lambda>i. last_row ! i) [0..<4]\<rparr>"

definition GetWidth :: "'b Image \<Rightarrow> nat" where
  "GetWidth s = m_width s"

definition GetHeight :: "'b Image \<Rightarrow> nat" where
  "GetHeight s = m_height s"

definition GetBitmap :: "'b Image \<Rightarrow> 'b" where
  "GetBitmap s = m_bitmap s"

definition GetPath :: "'b Image \<Rightarrow> string" where
  "GetPath s = m_path s"

definition GetLastRow :: "'b Image \<Rightarrow> real list" where
  "GetLastRow s = m_last_row s"

text \<open>
  The homogeneous vector \<open>result = P_4by4 * X\<close> of \<open>GetDepth\<close> (lines 124-137), built
  from the stored \<open>m_K\<close>, \<open>m_R\<close>, \<open>m_T\<close> and \<open>m_last_row\<close> with no rescaling.
\<close>

definition GetDepth_result :: "'b Image \<Rightarrow> real \<Rightarrow> real \<Rightarrow> real \<Rightarrow> real list" where
  "GetDepth_result s x y z =
     (let P_3by4 = mat_mul 3 3 4 (m_K s) (cols_R_T (m_R s) (m_T s));
          P_4by4 = P_3by4 @ map (\<lambda>j. m_last_row s ! j) [0..<4];
          X = [x, y, z, 1]
      in mat_mul 4 4 1 P_4by4 X)"

text \<open>\<open>GetDepth\<close> (lines 123-143): \<open>(float) (result[2] / result[3])\<close>.\<close>

definition GetDepth :: "(real \<Rightarrow> real) \<Rightarrow> 'b Image \<Rightarrow> real \<Rightarrow> real \<Rightarrow> real \<Rightarrow> real option" where
  "GetDepth f32 s x y z =
     (let result = GetDepth_result s x y z
      in if result ! 3 = 0 then None else Some (f32 (result ! 2 / result ! 3)))"

definition GetK :: "(real \<Rightarrow> real) \<Rightarrow> 'b Image \<Rightarrow> real list" where
  "GetK f32 s = DoubleArrToFloatArr f32 (m_K s) 9"

definition GetRT :: "(real \<Rightarrow> real) \<Rightarrow> 'b Image \<Rightarrow> real list \<times> real list" where
  "GetRT f32 s = (DoubleArrToFloatArr f32 (m_R s) 9, DoubleArrToFloatArr f32 (m_T s) 3)"

definition GetCDouble :: "'b Image \<Rightarrow> real list" where
  "GetCDouble s = ComputeProjectionCenter (m_R s) (m_T s)"

definition GetC :: "(real \<Rightarrow> real) \<Rightarrow> 'b Image \<Rightarrow> real list" where
  "GetC f32 s = DoubleArrToFloatArr f32 (ComputeProjectionCenter (m_R s) (m_T s)) 3"

definition GetKDouble :: "'b Image \<Rightarrow> real list" where
  "GetKDouble s = map (\<lambda>i. m_K s ! i) [0..<9]"

definition GetPinvPDouble :: "'b Image \<Rightarrow> real list option \<times> real list option" where
  "GetPinvPDouble s = Compute4by4ProjectionMatrix (m_K s) (m_R s) (m_T s) (m_last_row s)"

definition GetPinvP :: "(real \<Rightarrow> real) \<Rightarrow> 'b Image \<Rightarrow> real list option \<times> real list option" where
  "GetPinvP f32 s =
     (let (P_double, inv_P_double) =
            Compute4by4ProjectionMatrix (m_K s) (m_R s) (m_T s) (m_last_row s)
      in (map_option (\<lambda>a. DoubleArrToFloatArr f32 a 16) P_double,
          map_option (\<lambda>a. DoubleArrToFloatArr f32 a 16) inv_P_double))"

text \<open>The six output arrays of the rotation functions.\<close>

record rotated =
  out_K :: "real list"
  out_R :: "real list"
  out_T :: "real list"
  out_P :: "real list option"
  out_inv_P :: "real list option"
  out_C :: "real list"

text \<open>The common tail of the four functions: build \<open>P\<close>, \<open>inv_P\<close>, \<open>C\<close> and narrow.\<close>

definition narrowed ::
  "(real \<Rightarrow> real) \<Rightarrow> real list \<Rightarrow> real list \<Rightarrow> real list \<Rightarrow> real list \<Rightarrow> rotated" where
  "narrowed f32 K R T last_row =
     (let (P_double, inv_P_double) = Compute4by4ProjectionMatrix K R T last_row;
          C_double = ComputeProjectionCenter R T
      in \<lparr>out_K = DoubleArrToFloatArr f32 K 9,
          out_R = DoubleArrToFloatArr f32 R 9,
          out_T = DoubleArrToFloatArr f32 T 3,
          out_P = map_option (\<lambda>a. DoubleArrToFloatArr f32 a 16) P_double,
          out_inv_P = map_option (\<lambda>a. DoubleArrToFloatArr f32 a 16) inv_P_double,
          out_C = DoubleArrToFloatArr f32 C_double 3\<rparr>)"

text \<open>\<open>Original\<close> (lines 190-206).\<close>

definition Original :: "(real \<Rightarrow> real) \<Rightarrow> 'b Image \<Rightarrow> rotated" where
  "Original f32 s = narrowed f32 (m_K s) (m_R s) (m_T s) (m_last_row s)"

text \<open>The matrix \<open>rot\<close> that each of the three rotations writes out.\<close>

definition rot :: "real list" where
  "rot = [0, 1, 0,  - 1, 0, 0,  0, 0, 1]"

text \<open>\<open>Rotate90\<close> (lines 279-323).\<close>

definition Rotate90 :: "(real \<Rightarrow> real) \<Rightarrow> 'b Image \<Rightarrow> rotated" where
  "Rotate90 f32 s =
     (let fx_old = m_K s ! 0; cx_old = m_K s ! 2; fy_old = m_K s ! 4; cy_old = m_K s ! 5;
          K_new = [0, 0, 0, 0, 0, 0, 0, 0, 0]
                    [0 := fy_old, 2 := cy_old, 4 := fx_old,
                     5 := - cx_old + real (m_width s) - 1, 8 := 1];
          R_new = mat_mul 3 3 3 rot (m_R s);
          T_new = mat_mul 3 3 1 rot (m_T s)
      in narrowed f32 K_new R_new T_new (m_last_row s))"

text \<open>\<open>Rotate180\<close> (lines 325-370).\<close>

definition Rotate180 :: "(real \<Rightarrow> real) \<Rightarrow> 'b Image \<Rightarrow> rotated" where
  "Rotate180 f32 s =
     (let fx_old = m_K s ! 0; cx_old = m_K s ! 2; fy_old = m_K s ! 4; cy_old = m_K s ! 5;
          K_new = [0, 0, 0, 0, 0, 0, 0, 0, 0]
                    [0 := fx_old, 2 := - cx_old + real (m_width s) - 1, 4 := fy_old,
                     5 := - cy_old + real (m_height s) - 1, 8 := 1];
          rot2 = mat_mul 3 3 3 rot rot;
          R_new = mat_mul 3 3 3 rot2 (m_R s);
          T_new = mat_mul 3 3 1 rot2 (m_T s)
      in narrowed f32 K_new R_new T_new (m_last_row s))"

text \<open>\<open>Rotate270\<close> (lines 373-418).\<close>

definition Rotate270 :: "(real \<Rightarrow> real) \<Rightarrow> 'b Image \<Rightarrow> rotated" where
  "Rotate270 f32 s =
     (let fx_old = m_K s ! 0; cx_old = m_K s ! 2; fy_old = m_K s ! 4; cy_old = m_K s ! 5;
          K_new = [0, 0, 0, 0, 0, 0, 0, 0, 0]
                    [0 := fy_old, 2 := - cy_old + real (m_height s) - 1, 4 := fx_old,
                     5 := cx_old, 8 := 1];
          rot3 = mat_mul 3 3 3 (mat_mul 3 3 3 rot rot) rot;
          R_new = mat_mul 3 3 3 rot3 (m_R s);
          T_new = mat_mul 3 3 1 rot3 (m_T s)
      in narrowed f32 K_new R_new T_new (m_last_row s))"

text \<open>
  \<open>Rotate90Multi\<close> (lines 260-277): a switch on \<open>cnt % 4\<close>. The default branch writes
  none of the output arrays: \<open>None\<close>.
\<close>

definition Rotate90Multi :: "(real \<Rightarrow> real) \<Rightarrow> int \<Rightarrow> 'b Image \<Rightarrow> rotated option" where
  "Rotate90Multi f32 cnt s =
     (let sel = cnt smod 4
      in if sel = 0 then Some (Original f32 s)
         else if sel = 1 then Some (Rotate90 f32 s)
         else if sel = 2 then Some (Rotate180 f32 s)
         else if sel = 3 then Some (Rotate270 f32 s)
         else None)"

text \<open>
  \<open>std::round\<close> (halves away from zero) and the conversion of its result to \<open>size_t\<close>,
  which is undefined for a value outside the range of the type.
\<close>

definition std_round :: "real \<Rightarrow> real" where
  "std_round x = (if 0 \<le> x then real_of_int \<lfloor>x + 1 / 2\<rfloor> else - real_of_int \<lfloor>- x + 1 / 2\<rfloor>)"

definition to_size_t :: "real \<Rightarrow> nat option" where
  "to_size_t x = (if 0 \<le> x \<and> x < 2 ^ 64 then Some (nat \<lfloor>x\<rfloor>) else None)"

text \<open>
  \<open>Rescale(factor_x, factor_y)\<close> (lines 423-440). The factors are \<open>float\<close> values. In
  \<open>width_ * factor_x\<close> the stored width is converted to \<open>float\<close> and the product is a
  \<open>float\<close>; in \<open>new_width / static_cast<float>(width_)\<close> both operands are converted
  and the quotient is a \<open>float\<close>, widened to \<open>double\<close> without change. \<open>None\<close> when
  a conversion to \<open>size_t\<close> is undefined or when a divisor is zero, so that the scale
  written into \<open>K_\<close> is not finite.
\<close>

definition Rescale2 ::
  "(real \<Rightarrow> real) \<Rightarrow> ('b \<Rightarrow> bool) \<Rightarrow> (nat \<Rightarrow> nat \<Rightarrow> 'b \<Rightarrow> 'b) \<Rightarrow> real \<Rightarrow> real \<Rightarrow> 'b Image
     \<Rightarrow> 'b Image option" where
  "Rescale2 f32 has_data bm_rescale factor_x factor_y s =
     (case to_size_t (std_round (f32 (f32 (real (m_width s)) * factor_x))) of
        None \<Rightarrow> None
      | Some new_width \<Rightarrow>
          (case to_size_t (std_round (f32 (f32 (real (m_height s)) * factor_y))) of
             None \<Rightarrow> None
           | Some new_height \<Rightarrow>
               if f32 (real (m_width s)) = 0 \<or> f32 (real (m_height s)) = 0 then None
               else
                 let bm = (if has_data (m_bitmap s) then bm_rescale new_width new_height (m_bitmap s)
                           else m_bitmap s);
                     scale_x = f32 (f32 (real new_width) / f32 (real (m_width s)));
                     scale_y = f32 (f32 (real new_height) / f32 (real (m_height s)));
                     K = m_K s
                 in Some (s\<lparr>m_bitmap := bm,
                            m_K := K[0 := K ! 0 * scale_x, 2 := K ! 2 * scale_x,
                                    4 := K ! 4 * scale_y, 5 := K ! 5 * scale_y],
                            m_width := new_width,
                            m_height := new_height\<rparr>)))"

text \<open>\<open>Rescale(factor)\<close> (line 421).\<close>

definition Rescale1 ::
  "(real \<Rightarrow> real) \<Rightarrow> ('b \<Rightarrow> bool) \<Rightarrow> (nat \<Rightarrow> nat \<Rightarrow> 'b \<Rightarrow> 'b) \<Rightarrow> real \<Rightarrow> 'b Image
     \<Rightarrow> 'b Image option" where
  "Rescale1 f32 has_data bm_rescale factor s = Rescale2 f32 has_data bm_rescale factor factor s"

text \<open>
  \<open>Downsize\<close> (lines 443-450). In \<open>static_cast<float>(max_width) / width_\<close> both
  operands are converted to \<open>float\<close> and the quotient is a \<open>float\<close>. Past the early
  return a zero divisor makes a factor infinite or NaN, and the call of \<open>Rescale\<close>
  then divides by the same divisor again.
\<close>

definition Downsize ::
  "(real \<Rightarrow> real) \<Rightarrow> ('b \<Rightarrow> bool) \<Rightarrow> (nat \<Rightarrow> nat \<Rightarrow> 'b \<Rightarrow> 'b) \<Rightarrow> nat \<Rightarrow> nat \<Rightarrow> 'b Image
     \<Rightarrow> 'b Image option" where
  "Downsize f32 has_data bm_rescale max_width max_height s =
     (if m_width s \<le> max_width \<and> m_height s \<le> max_height then Some s
      else if f32 (real (m_width s)) = 0 \<or> f32 (real (m_height s)) = 0 then None
      else
        let factor_x = f32 (f32 (real max_width) / f32 (real (m_width s)));
            factor_y = f32 (f32 (real max_height) / f32 (real (m_height s)))
        in Rescale1 f32 has_data bm_rescale (min factor_x factor_y) s)"

subsection \<open>ComputeRelativePose\<close>

text \<open>Lines 454-466.\<close>

definition ComputeRelativePose ::
  "real list \<Rightarrow> real list \<Rightarrow> real list \<Rightarrow> real list \<Rightarrow> real list \<times> real list" where
  "ComputeRelativePose R1 T1 R2 T2 =
     (let R = mat_mul 3 3 3 R2 (transpose_mat 3 3 R1);
          T = map (\<lambda>i. T2 ! i - mat_mul 3 3 1 R T1 ! i) [0..<3]
      in (R, T))"

subsection \<open>Rounding to single precision\<close>

text \<open>
  The nearest binary32 value of a real number, ties to the even significand: the
  significand has 24 bits, the least exponent of a normal value is \<open>-126\<close>. Values
  beyond the largest binary32 value, which the conversion turns into an infinity, are
  outside its scope.
\<close>

definition round_half_even :: "real \<Rightarrow> int" where
  "round_half_even x =
     (let f = \<lfloor>x\<rfloor>; d = x - real_of_int f
      in if d < 1 / 2 then f else if 1 / 2 < d then f + 1 else if even f then f else f + 1)"

definition pow2 :: "int \<Rightarrow> real" where
  "pow2 e = (if 0 \<le> e then 2 ^ nat e else 1 / 2 ^ nat (- e))"

definition round_at :: "int \<Rightarrow> real \<Rightarrow> real" where
  "round_at e x = real_of_int (round_half_even (x / pow2 (e - 23))) * pow2 (e - 23)"

definition float32 :: "real \<Rightarrow> real" where
  "float32 x = (if x = 0 then 0 else round_at (max (- 126) \<lfloor>log 2 \<bar>x\<bar>\<rfloor>) x)"

section \<open>Notions of the specification\<close>

text \<open>\<open>max(|P|)\<close>: the component-wise maximum absolute value of a matrix.\<close>

definition maxAbsCoeff :: "real list \<Rightarrow> real" where
  "maxAbsCoeff A = maxCoeff (map abs A)"

text \<open>
  The unscaled \<open>4 \<times> 4\<close> matrix: \<open>K \<cdot> [R | T]\<close> in rows 0 to 2, the last row in row 3,
  entry by entry.
\<close>

definition unscaled_entry :: "'b Image \<Rightarrow> nat \<Rightarrow> nat \<Rightarrow> real" where
  "unscaled_entry s i j =
     (if i = 3 then m_last_row s ! j
      else if j = 3 then (\<Sum>k<3. m_K s ! (3 * i + k) * m_T s ! k)
      else (\<Sum>k<3. m_K s ! (3 * i + k) * m_R s ! (3 * k + j)))"

definition unscaled_P :: "'b Image \<Rightarrow> real list" where
  "unscaled_P s = concat (map (\<lambda>i. map (\<lambda>j. unscaled_entry s i j) [0..<4]) [0..<4])"

text \<open>Component \<open>i\<close> of the unscaled matrix applied to the point \<open>(x, y, z, 1)\<close>.\<close>

definition homogeneous_image :: "'b Image \<Rightarrow> real \<Rightarrow> real \<Rightarrow> real \<Rightarrow> nat \<Rightarrow> real" where
  "homogeneous_image s x y z i =
     unscaled_entry s i 0 * x + unscaled_entry s i 1 * y + unscaled_entry s i 2 * z
       + unscaled_entry s i 3 * 1"

text \<open>
  The depth of the specification: the third component divided by the fourth, narrowed
  at the end; no finite value when the fourth component is zero.
\<close>

definition spec_depth :: "(real \<Rightarrow> real) \<Rightarrow> 'b Image \<Rightarrow> real \<Rightarrow> real \<Rightarrow> real \<Rightarrow> real option" where
  "spec_depth f32 s x y z =
     (if homogeneous_image s x y z 3 = 0 then None
      else Some (f32 (homogeneous_image s x y z 2 / homogeneous_image s x y z 3)))"

section \<open>Concrete cameras\<close>

text \<open>
  The camera of the specification's scenario: \<open>1280 \<times> 960\<close> pixels, focal length 1000,
  principal point \<open>(640, 480)\<close>, identity rotation, zero translation, and the canonical
  last row. No bitmap is attached.
\<close>

definition scenario_camera :: "unit Image" where
  "scenario_camera =
     \<lparr>m_path = ''scenario.png'', m_width = 1280, m_height = 960,
      m_K = [1000, 0, 640,  0, 1000, 480,  0, 0, 1],
      m_R = [1, 0, 0,  0, 1, 0,  0, 0, 1],
      m_T = [0, 0, 0],
      m_last_row = [0, 0, 0, 1],
      m_bitmap = ()\<rparr>"


text \<open>A camera of 11 by 22 pixels.\<close>

definition small_camera :: "unit Image" where
  "small_camera =
     \<lparr>m_path = ''small.png'', m_width = 11, m_height = 22,
      m_K = [10, 0, 5,  0, 10, 10,  0, 0, 1],
      m_R = [1, 0, 0,  0, 1, 0,  0, 0, 1],
      m_T = [0, 0, 0],
      m_last_row = [0, 0, 0, 1],
      m_bitmap = ()\<rparr>"

text \<open>A bitmap without pixel data, and a resize that has nothing to do on it.\<close>

definition unit_has_data :: "unit \<Rightarrow> bool" where
  "unit_has_data b = False"

definition unit_rescale :: "nat \<Rightarrow> nat \<Rightarrow> unit \<Rightarrow> unit" where
  "unit_rescale w h b = b"

section \<open>Evaluation rules\<close>

lemma upt_0_3: "[0..<3] = [0, 1, 2]"
  by (simp add: upt_rec)

lemma upt_0_4: "[0..<4] = [0, 1, 2, 3]"
  by (simp add: upt_rec)

lemma upt_0_9: "[0..<9] = [0, 1, 2, 3, 4, 5, 6, 7, 8]"
  by (simp add: upt_rec)

lemma upt_0_16: "[0..<16] = [0, 1, 2, 3, 4, 5, 6, 7, 8, 9, 10, 11, 12, 13, 14, 15]"
  by (simp add: upt_rec)

lemmas eval_defs = Compute4by4ProjectionMatrix_def mat_mul_def cols_R_T_def maxCoeff_def
  inverse4_def det4_def adjugate_def cofactor_def submatrix_def det3_def transpose_mat_def
  upt_0_3 upt_0_4 Let_def

lemma DoubleArrToFloatArr_all:
  "length xs = n \<Longrightarrow> DoubleArrToFloatArr f32 xs n = map f32 xs"
  by (auto simp add: DoubleArrToFloatArr_def intro: nth_equalityI)

lemma list16:
  assumes "length A = 16"
  shows "A = [A ! 0, A ! 1, A ! 2, A ! 3, A ! 4, A ! 5, A ! 6, A ! 7,
              A ! 8, A ! 9, A ! 10, A ! 11, A ! 12, A ! 13, A ! 14, A ! 15]"
proof -
  have "A = map (\<lambda>i. A ! i) [0..<16]"
    using assms map_nth [of A] by simp
  then show ?thesis
    by (simp add: upt_0_16)
qed

section \<open>The inverse of a 4 by 4 matrix\<close>

text \<open>
  The matrix that \<open>inverse4\<close> returns is the inverse: the product of a matrix with its
  adjugate is the determinant times the identity.
\<close>

lemma adjugate_product_explicit:
  "mat_mul 4 4 4 [a0, a1, a2, a3, b0, b1, b2, b3, c0, c1, c2, c3, d0, d1, d2, d3]
     (adjugate [a0, a1, a2, a3, b0, b1, b2, b3, c0, c1, c2, c3, d0, d1, d2, d3])
   = map (\<lambda>e. det4 [a0, a1, a2, a3, b0, b1, b2, b3, c0, c1, c2, c3, d0, d1, d2, d3] * e) identity4"
  apply (simp add: mat_mul_def adjugate_def det4_def cofactor_def submatrix_def det3_def
      identity4_def upt_0_4)
  apply (intro conjI)
                 apply (simp_all add: algebra_simps)
  done

lemma adjugate_product:
  assumes "length A = 16"
  shows "mat_mul 4 4 4 A (adjugate A) = map (\<lambda>e. det4 A * e) identity4"
proof -
  obtain a0 a1 a2 a3 b0 b1 b2 b3 c0 c1 c2 c3 d0 d1 d2 d3
    where "A = [a0, a1, a2, a3, b0, b1, b2, b3, c0, c1, c2, c3, d0, d1, d2, d3]"
    using list16 [OF assms] by blast
  then show ?thesis
    by (simp only: adjugate_product_explicit)
qed

lemma length_adjugate: "length (adjugate A) = 16"
  by (simp add: adjugate_def upt_0_4)

lemma mat_mul_scale_right:
  assumes "length B = 16"
  shows "mat_mul 4 4 4 A (map (\<lambda>e. e * c) B) = map (\<lambda>e. e * c) (mat_mul 4 4 4 A B)"
proof -
  obtain a0 a1 a2 a3 b0 b1 b2 b3 c0 c1 c2 c3 d0 d1 d2 d3
    where "B = [a0, a1, a2, a3, b0, b1, b2, b3, c0, c1, c2, c3, d0, d1, d2, d3]"
    using list16 [OF assms] by blast
  then show ?thesis
    by (simp add: mat_mul_def upt_0_4 algebra_simps)
qed

lemma inverse4_is_inverse:
  assumes "length A = 16" and "inverse4 A = Some B"
  shows "mat_mul 4 4 4 A B = identity4"
proof -
  from assms(2) have d: "det4 A \<noteq> 0" and B: "B = map (\<lambda>e. e * (1 / det4 A)) (adjugate A)"
    by (auto simp add: inverse4_def Let_def split: if_splits)
  have "mat_mul 4 4 4 A B = map (\<lambda>e. e * (1 / det4 A)) (mat_mul 4 4 4 A (adjugate A))"
    unfolding B by (rule mat_mul_scale_right) (rule length_adjugate)
  also have "\<dots> = map (\<lambda>e. e * (1 / det4 A)) (map (\<lambda>e. det4 A * e) identity4)"
    by (simp only: adjugate_product [OF assms(1)])
  also have "\<dots> = identity4"
    using d by (simp add: identity4_def)
  finally show ?thesis .
qed

text \<open>
  Whenever a build returns two finite matrices, their product is a nonzero multiple of
  the identity: the factor is the second rescale factor.
\<close>

lemma build_product:
  assumes "Compute4by4ProjectionMatrix K R T last_row = (Some P, Some inv_P)"
  shows "\<exists>B. inverse4 P = Some B \<and> maxCoeff B \<noteq> 0
           \<and> mat_mul 4 4 4 P inv_P = map (\<lambda>e. e * (10 / maxCoeff B)) identity4"
proof -
  define M where "M = mat_mul 3 3 4 K (cols_R_T R T) @ map (\<lambda>j. last_row ! j) [0..<4]"
  have lenM: "length M = 16"
    by (simp add: M_def mat_mul_def upt_0_3 upt_0_4)
  from assms have m: "maxCoeff M \<noteq> 0"
    by (auto simp add: Compute4by4ProjectionMatrix_def M_def Let_def split: if_splits)
  with assms have P: "P = map (\<lambda>e. e * (10 / maxCoeff M)) M"
    by (auto simp add: Compute4by4ProjectionMatrix_def M_def Let_def split: if_splits option.splits)
  from assms m obtain B where B: "inverse4 P = Some B" "maxCoeff B \<noteq> 0"
    and inv_P: "inv_P = map (\<lambda>e. e * (10 / maxCoeff B)) B"
    unfolding P
    by (auto simp add: Compute4by4ProjectionMatrix_def M_def Let_def split: if_splits option.splits)
  have lenP: "length P = 16"
    by (simp add: P lenM)
  have lenB: "length B = 16"
    using B(1) by (auto simp add: inverse4_def Let_def length_adjugate split: if_splits)
  have "mat_mul 4 4 4 P inv_P = map (\<lambda>e. e * (10 / maxCoeff B)) (mat_mul 4 4 4 P B)"
    unfolding inv_P by (rule mat_mul_scale_right) (rule lenB)
  also have "\<dots> = map (\<lambda>e. e * (10 / maxCoeff B)) identity4"
    by (simp only: inverse4_is_inverse [OF lenP B(1)])
  finally show ?thesis
    using B by blast
qed

section \<open>The signed maximum\<close>

text \<open>
  \<open>maxCoeff\<close> is the maximum of the coefficients. When it is positive, the rescaled
  matrix has the signed maximum 10; nothing bounds the negative coefficients.
\<close>

lemma maxCoeff_Max: "A \<noteq> [] \<Longrightarrow> maxCoeff A = Max (set A)"
proof (cases A)
  case Nil
  assume "A \<noteq> []"
  with Nil show ?thesis by simp
next
  case (Cons a list)
  then show ?thesis
    using Max.set_eq_fold [of a list] by (simp add: maxCoeff_def)
qed

lemma maxCoeff_scale:
  assumes "A \<noteq> []" and "0 < c"
  shows "maxCoeff (map (\<lambda>e. e * c) A) = maxCoeff A * c"
proof -
  have "mono (\<lambda>e. e * c)"
    using assms(2) by (simp add: mono_def)
  then have "(Max (set A)) * c = Max ((\<lambda>e. e * c) ` set A)"
    using assms(1) by (intro mono_Max_commute) simp_all
  then show ?thesis
    using assms(1) by (simp add: maxCoeff_Max)
qed

lemma build_signed_maximum:
  assumes "fst (Compute4by4ProjectionMatrix K R T last_row) = Some P"
    and "0 < maxCoeff (mat_mul 3 3 4 K (cols_R_T R T) @ map (\<lambda>j. last_row ! j) [0..<4])"
  shows "maxCoeff P = 10"
proof -
  define M where "M = mat_mul 3 3 4 K (cols_R_T R T) @ map (\<lambda>j. last_row ! j) [0..<4]"
  have M: "M \<noteq> []"
    by (simp add: M_def upt_0_4)
  from assms have P: "P = map (\<lambda>e. e * (10 / maxCoeff M)) M"
    by (auto simp add: Compute4by4ProjectionMatrix_def M_def Let_def
        split: if_splits option.splits)
  have "0 < 10 / maxCoeff M"
    using assms(2) by (simp add: M_def)
  with M have "maxCoeff P = maxCoeff M * (10 / maxCoeff M)"
    unfolding P by (rule maxCoeff_scale)
  also have "\<dots> = 10"
    using assms(2) by (simp add: M_def)
  finally show ?thesis .
qed

text \<open>The two outputs of one build can multiply to a hundred times the identity.\<close>

lemma build_product_not_identity:
  "Compute4by4ProjectionMatrix identity3 identity3 [0, 0, 0] [0, 0, 0, 1] =
     (Some (map (\<lambda>e. 10 * e) identity4), Some (map (\<lambda>e. 10 * e) identity4))
   \<and> mat_mul 4 4 4 (map (\<lambda>e. 10 * e) identity4) (map (\<lambda>e. 10 * e) identity4)
       = map (\<lambda>e. 100 * e) identity4"
  by (simp add: eval_defs identity3_def identity4_def)

section \<open>The unscaled matrix\<close>

text \<open>
  The matrix that \<open>GetDepth\<close> and the build assemble is the unscaled matrix of the
  specification; the build rescales it, \<open>GetDepth\<close> does not.
\<close>

lemma stacked_is_unscaled_P:
  "mat_mul 3 3 4 (m_K s) (cols_R_T (m_R s) (m_T s)) @ map (\<lambda>j. m_last_row s ! j) [0..<4]
     = unscaled_P s"
  by (simp add: mat_mul_def cols_R_T_def unscaled_P_def unscaled_entry_def upt_0_3 upt_0_4
      eval_nat_numeral algebra_simps)

lemma build_P_is_rescaled_unscaled_P:
  assumes "fst (GetPinvPDouble s) = Some P"
  shows "P = map (\<lambda>e. e * (10 / maxCoeff (unscaled_P s))) (unscaled_P s)"
  using assms
  by (auto simp add: GetPinvPDouble_def Compute4by4ProjectionMatrix_def stacked_is_unscaled_P
      Let_def split: if_splits option.splits)

lemma GetDepth_result_entries:
  "GetDepth_result s x y z = map (homogeneous_image s x y z) [0, 1, 2, 3]"
  by (simp add: GetDepth_result_def mat_mul_def cols_R_T_def upt_0_3 upt_0_4 Let_def
      homogeneous_image_def unscaled_entry_def eval_nat_numeral algebra_simps)

section \<open>The rotation selector\<close>

lemma Rotate90Multi_nonneg:
  "0 \<le> cnt \<Longrightarrow> Rotate90Multi f32 cnt s =
     Some ((if cnt mod 4 = 0 then Original else if cnt mod 4 = 1 then Rotate90
            else if cnt mod 4 = 2 then Rotate180 else Rotate270) f32 s)"
proof -
  assume "0 \<le> cnt"
  then have "cnt smod 4 = cnt mod 4"
    by (simp add: smod_int_alt_def sgn_if)
  moreover have "cnt mod 4 = 0 \<or> cnt mod 4 = 1 \<or> cnt mod 4 = 2 \<or> cnt mod 4 = 3"
    by presburger
  ultimately show ?thesis
    by (auto simp add: Rotate90Multi_def Let_def)
qed

section \<open>Single precision\<close>

text \<open>
  \<open>float32\<close> at a value whose binary exponent is known, and at the values that
  \<open>Downsize(7, 13)\<close> meets on an image of 11 by 22 pixels.
\<close>

lemma pow2_powr: "pow2 e = 2 powr real_of_int e"
proof (cases "0 \<le> e")
  case True
  then have "2 powr real_of_int e = 2 powr real (nat e)" by simp
  also have "\<dots> = 2 ^ nat e" by (simp add: powr_realpow)
  finally show ?thesis
    using True by (simp add: pow2_def)
next
  case False
  then have "2 powr real_of_int e = 2 powr (- real (nat (- e)))" by simp
  also have "\<dots> = 1 / 2 ^ nat (- e)" by (simp add: powr_minus powr_realpow divide_inverse)
  finally show ?thesis
    using False by (simp add: pow2_def)
qed

lemma float32_at:
  assumes "pow2 e \<le> \<bar>x\<bar>" and "\<bar>x\<bar> < pow2 (e + 1)" and "- 126 \<le> e"
  shows "float32 x = round_at e x"
proof -
  have "0 < pow2 e"
    by (simp add: pow2_def)
  with assms(1) have pos: "0 < \<bar>x\<bar>"
    by linarith
  have "real_of_int e \<le> log 2 \<bar>x\<bar>"
    using assms(1) pos by (simp add: pow2_powr le_log_iff)
  moreover have "log 2 \<bar>x\<bar> < real_of_int e + 1"
    using assms(2) pos by (simp add: pow2_powr log_less_iff)
  ultimately have "\<lfloor>log 2 \<bar>x\<bar>\<rfloor> = e"
    by (simp add: floor_eq_iff)
  then show ?thesis
    using pos assms(3) by (simp add: float32_def)
qed

lemma float32_7: "float32 7 = 7"
  using float32_at [of 2 7] by (simp add: pow2_def round_at_def round_half_even_def)

lemma float32_11: "float32 11 = 11"
  using float32_at [of 3 11] by (simp add: pow2_def round_at_def round_half_even_def)

lemma float32_13: "float32 13 = 13"
  using float32_at [of 3 13] by (simp add: pow2_def round_at_def round_half_even_def)

lemma float32_22: "float32 22 = 22"
  using float32_at [of 4 22] by (simp add: pow2_def round_at_def round_half_even_def)

lemma float32_7_11: "float32 (7 / 11) = 5338205 / 8388608"
  using float32_at [of "- 1" "7 / 11"] by (simp add: pow2_def round_at_def round_half_even_def)

lemma float32_13_22: "float32 (13 / 22) = 9913809 / 16777216"
  using float32_at [of "- 1" "13 / 22"] by (simp add: pow2_def round_at_def round_half_even_def)

lemma float32_width_product: "float32 (109051899 / 16777216) = 13631487 / 2097152"
  using float32_at [of 2 "109051899 / 16777216"] by (simp add: pow2_def round_at_def round_half_even_def)

lemma float32_height_product: "float32 (109051899 / 8388608) = 13631487 / 1048576"
  using float32_at [of 3 "109051899 / 8388608"] by (simp add: pow2_def round_at_def round_half_even_def)

text \<open>A zero divisor leaves no finite scale.\<close>

lemma Rescale2_zero_divisor:
  "f32 (real (m_width s)) = 0 \<or> f32 (real (m_height s)) = 0 \<Longrightarrow>
     Rescale2 f32 has_data bm_rescale float32_7_11 float32_13_22 s = None"
  by (simp add: Rescale2_def split: option.splits)

section \<open>The claims\<close>

text \<open>
  C1. The claim: for every \<open>K\<close>, \<open>R\<close>, \<open>T\<close> and last row whose stacked matrix is invertible,
  the build returns \<open>P\<close> and \<open>inv_P\<close> whose maximum absolute entries are both 10.
  The code divides by \<open>maxCoeff\<close>, the signed maximum. With the identity for \<open>K\<close> and
  \<open>R\<close>, the translation \<open>(-100, 0, 0)\<close> and the last row \<open>(0, 0, 0, 1)\<close> the stacked
  matrix has the signed maximum 1, the factor is 10, and the returned \<open>P\<close> holds
  \<open>-1000\<close>: its maximum absolute entry is 1000, its signed maximum is 10.
\<close>

theorem C1_build_with_negative_translation:
  "det4 (mat_mul 3 3 4 identity3 (cols_R_T identity3 [- 100, 0, 0]) @ [0, 0, 0, 1]) = 1
   \<and> maxAbsCoeff (mat_mul 3 3 4 identity3 (cols_R_T identity3 [- 100, 0, 0]) @ [0, 0, 0, 1])
       = 100
   \<and> Compute4by4ProjectionMatrix identity3 identity3 [- 100, 0, 0] [0, 0, 0, 1] =
     (Some [10, 0, 0, - 1000,  0, 10, 0, 0,  0, 0, 10, 0,  0, 0, 0, 10],
      Some [1 / 10, 0, 0, 10,  0, 1 / 10, 0, 0,  0, 0, 1 / 10, 0,  0, 0, 0, 1 / 10])
   \<and> maxAbsCoeff [10, 0, 0, - 1000,  0, 10, 0, 0,  0, 0, 10, 0,  0, 0, 0, 10] = 1000
   \<and> maxCoeff [10, 0, 0, - 1000,  0, 10, 0, 0,  0, 0, 10, 0,  0, 0, 0, 10] = 10"
  by (simp add: eval_defs identity3_def maxAbsCoeff_def)

text \<open>
  C2. \<open>Rotate90\<close> returns the intrinsics \<open>fx' = fy\<close>, \<open>cx' = cy\<close>, \<open>fy' = fx\<close>,
  \<open>cy' = -cx + W - 1\<close>, zeros elsewhere and \<open>K'[8] = 1\<close>; \<open>R' = rot * R\<close> and
  \<open>T' = rot * T\<close> for \<open>rot = [[0,1,0],[-1,0,0],[0,0,1]]\<close>; \<open>P\<close>, \<open>inv_P\<close> and \<open>C\<close> are
  built from \<open>K'\<close>, \<open>R'\<close>, \<open>T'\<close> and the stored last row; every output is narrowed to
  single precision. For the camera of the scenario the outputs are the narrowed
  \<open>[1000, 0, 480, 0, 1000, 639, 0, 0, 1]\<close>, \<open>rot\<close> and the zero vector.
\<close>

theorem Rotate90_remap:
  "(let K' = [m_K s ! 4, 0, m_K s ! 5,  0, m_K s ! 0, - (m_K s ! 2) + real (m_width s) - 1,
              0, 0, 1];
        R' = [m_R s ! 3, m_R s ! 4, m_R s ! 5,
              - (m_R s ! 0), - (m_R s ! 1), - (m_R s ! 2),
              m_R s ! 6, m_R s ! 7, m_R s ! 8];
        T' = [m_T s ! 1, - (m_T s ! 0), m_T s ! 2]
    in out_K (Rotate90 f32 s) = map f32 K'
     \<and> out_R (Rotate90 f32 s) = map f32 R'
     \<and> out_T (Rotate90 f32 s) = map f32 T'
     \<and> R' = mat_mul 3 3 3 [0, 1, 0,  - 1, 0, 0,  0, 0, 1] (m_R s)
     \<and> T' = mat_mul 3 3 1 [0, 1, 0,  - 1, 0, 0,  0, 0, 1] (m_T s)
     \<and> out_P (Rotate90 f32 s) =
         map_option (\<lambda>a. DoubleArrToFloatArr f32 a 16)
           (fst (Compute4by4ProjectionMatrix K' R' T' (m_last_row s)))
     \<and> out_inv_P (Rotate90 f32 s) =
         map_option (\<lambda>a. DoubleArrToFloatArr f32 a 16)
           (snd (Compute4by4ProjectionMatrix K' R' T' (m_last_row s)))
     \<and> out_C (Rotate90 f32 s) = DoubleArrToFloatArr f32 (ComputeProjectionCenter R' T') 3)
   \<and> out_K (Rotate90 f32 scenario_camera) = map f32 [1000, 0, 480,  0, 1000, 639,  0, 0, 1]
   \<and> out_R (Rotate90 f32 scenario_camera) = map f32 [0, 1, 0,  - 1, 0, 0,  0, 0, 1]
   \<and> out_T (Rotate90 f32 scenario_camera) = map f32 [0, 0, 0]"
  by (simp add: Rotate90_def rot_def narrowed_def mat_mul_def upt_0_3 Let_def numeral_2_eq_2
      DoubleArrToFloatArr_all scenario_camera_def split: prod.splits)

text \<open>
  C3. \<open>Rotate90Multi\<close> with \<open>cnt = 0\<close> returns what \<open>Original\<close> returns, and that is
  what the unrotated queries \<open>GetK\<close>, \<open>GetRT\<close>, \<open>GetPinvP\<close> and \<open>GetC\<close> return: the
  stored \<open>K\<close>, \<open>R\<close>, \<open>T\<close>, the \<open>P\<close> and \<open>inv_P\<close> of the build and the projection
  center, each narrowed to single precision.
\<close>

theorem Rotate90Multi_zero:
  "Rotate90Multi f32 0 s = Some (Original f32 s)
   \<and> Original f32 s =
       \<lparr>out_K = GetK f32 s,
        out_R = fst (GetRT f32 s),
        out_T = snd (GetRT f32 s),
        out_P = fst (GetPinvP f32 s),
        out_inv_P = snd (GetPinvP f32 s),
        out_C = GetC f32 s\<rparr>
   \<and> GetK f32 s = DoubleArrToFloatArr f32 (m_K s) 9
   \<and> GetRT f32 s = (DoubleArrToFloatArr f32 (m_R s) 9, DoubleArrToFloatArr f32 (m_T s) 3)
   \<and> GetPinvP f32 s =
       (map_option (\<lambda>a. DoubleArrToFloatArr f32 a 16) (fst (GetPinvPDouble s)),
        map_option (\<lambda>a. DoubleArrToFloatArr f32 a 16) (snd (GetPinvPDouble s)))
   \<and> GetC f32 s = DoubleArrToFloatArr f32 (GetCDouble s) 3"
  by (simp add: Rotate90Multi_def Original_def narrowed_def GetK_def GetRT_def GetPinvP_def
      GetC_def GetCDouble_def GetPinvPDouble_def Let_def split: prod.splits)

text \<open>
  C4. \<open>GetDepth(x, y, z)\<close> is the third component divided by the fourth component of
  the unscaled matrix applied to \<open>(x, y, z, 1)\<close>, narrowed to single precision at the
  end; it is not finite when the fourth component is zero.
\<close>

theorem GetDepth_unscaled:
  "GetDepth f32 s x y z = spec_depth f32 s x y z"
  by (simp add: GetDepth_def spec_depth_def GetDepth_result_entries Let_def)




text \<open>
  C6. The claim: for every \<open>K\<close>, \<open>R\<close>, \<open>T\<close> and last row whose stacked matrix is
  invertible, the returned \<open>P\<close> and \<open>inv_P\<close> multiply to a nonzero multiple of the
  identity. Lemma \<open>build_product\<close> proves this whenever both outputs are finite. The
  code divides by the signed maximum, which is zero for an invertible matrix without a
  positive coefficient: with \<open>K = I\<close>, the rotation \<open>[[-1,0,0],[0,0,-1],[0,-1,0]]\<close>,
  \<open>T = 0\<close> and the last row \<open>(0, 0, 0, -1)\<close> the stacked matrix has determinant \<open>-1\<close>
  and signed maximum 0, and neither output is finite.
\<close>

theorem C6_build_with_nonpositive_matrix:
  "det4 (mat_mul 3 3 4 identity3 (cols_R_T [- 1, 0, 0,  0, 0, - 1,  0, - 1, 0] [0, 0, 0])
           @ [0, 0, 0, - 1]) = - 1
   \<and> maxCoeff (mat_mul 3 3 4 identity3 (cols_R_T [- 1, 0, 0,  0, 0, - 1,  0, - 1, 0] [0, 0, 0])
           @ [0, 0, 0, - 1]) = 0
   \<and> Compute4by4ProjectionMatrix identity3 [- 1, 0, 0,  0, 0, - 1,  0, - 1, 0] [0, 0, 0]
        [0, 0, 0, - 1] = (None, None)"
  by (simp add: eval_defs identity3_def)

text \<open>
  C7. The claim: for every integer \<open>cnt\<close> one of the four cases is selected and the
  default branch is unreachable. Lemma \<open>Rotate90Multi_nonneg\<close> proves this for
  \<open>cnt \<ge> 0\<close>. The remainder \<open>%\<close> truncates: \<open>-1 % 4 = -1\<close>, so \<open>cnt = -1\<close> takes the
  default branch and no output array is written.
\<close>

theorem C7_negative_count_selects_nothing:
  "Rotate90Multi f32 (- 1) s = None"
  by (simp add: Rotate90Multi_def smod_int_alt_def)

text \<open>
  C8. \<open>Downsize(max_width, max_height)\<close> with \<open>width \<le> max_width\<close> and
  \<open>height \<le> max_height\<close> returns the state as it is: width, height, \<open>K\<close> and the
  bitmap are unchanged. Otherwise it is \<open>Rescale(factor)\<close>, that is
  \<open>Rescale(factor, factor)\<close>, with the one factor
  \<open>min (max_width / width) (max_height / height)\<close>, each quotient computed in single
  precision as the source computes it. On the image of 11 by 22 pixels with the
  bounds 7 and 13 the factor is \<open>9913809 / 16777216\<close> and the new size is 6 by 13.
\<close>

theorem Downsize_spec:
  "(m_width s \<le> max_width \<and> m_height s \<le> max_height \<longrightarrow>
      Downsize f32 has_data bm_rescale max_width max_height s = Some s)
   \<and> (\<not> (m_width s \<le> max_width \<and> m_height s \<le> max_height) \<longrightarrow>
      (let factor = min (f32 (f32 (real max_width) / f32 (real (m_width s))))
                        (f32 (f32 (real max_height) / f32 (real (m_height s))))
       in Downsize f32 has_data bm_rescale max_width max_height s
            = Rescale1 f32 has_data bm_rescale factor s
        \<and> Rescale1 f32 has_data bm_rescale factor s
            = Rescale2 f32 has_data bm_rescale factor factor s))"
  by (auto simp add: Downsize_def Rescale1_def Let_def Rescale2_zero_divisor)

theorem Downsize_spec_witness:
  "m_width scenario_camera \<le> 2000 \<and> m_height scenario_camera \<le> 2000
   \<and> Downsize float32 unit_has_data unit_rescale 2000 2000 scenario_camera = Some scenario_camera
   \<and> \<not> (m_width small_camera \<le> 7 \<and> m_height small_camera \<le> 13)
   \<and> Downsize float32 unit_has_data unit_rescale 7 13 small_camera
       = Rescale2 float32 unit_has_data unit_rescale (9913809 / 16777216) (9913809 / 16777216)
           small_camera
   \<and> map_option m_width (Downsize float32 unit_has_data unit_rescale 7 13 small_camera) = Some 6
   \<and> map_option m_height (Downsize float32 unit_has_data unit_rescale 7 13 small_camera) = Some 13"
proof -
  have a: "m_width scenario_camera \<le> 2000 \<and> m_height scenario_camera \<le> 2000"
    by (simp add: scenario_camera_def)
  have b: "\<not> (m_width small_camera \<le> 7 \<and> m_height small_camera \<le> 13)"
    by (simp add: small_camera_def)
  have f: "min (float32 (float32 (real 7) / float32 (real (m_width small_camera))))
               (float32 (float32 (real 13) / float32 (real (m_height small_camera))))
             = 9913809 / 16777216"
    by (simp add: small_camera_def float32_7 float32_11 float32_13 float32_22 float32_7_11 float32_13_22)
  have d: "Downsize float32 unit_has_data unit_rescale 7 13 small_camera
             = Rescale2 float32 unit_has_data unit_rescale (9913809 / 16777216)
                 (9913809 / 16777216) small_camera"
    using Downsize_spec [of small_camera 7 13 float32 unit_has_data unit_rescale] b
    by (simp only: f Let_def simp_thms)
  have w: "to_size_t (std_round (float32 (float32 (real (m_width small_camera))
             * (9913809 / 16777216)))) = Some 6"
    by (simp add: small_camera_def float32_11 float32_width_product std_round_def to_size_t_def)
  have h: "to_size_t (std_round (float32 (float32 (real (m_height small_camera))
             * (9913809 / 16777216)))) = Some 13"
    by (simp add: small_camera_def float32_22 float32_height_product std_round_def to_size_t_def)
  have z: "\<not> (float32 (real (m_width small_camera)) = 0
               \<or> float32 (real (m_height small_camera)) = 0)"
    by (simp add: small_camera_def float32_11 float32_22)
  have r: "map_option m_width (Rescale2 float32 unit_has_data unit_rescale (9913809 / 16777216)
             (9913809 / 16777216) small_camera) = Some 6
         \<and> map_option m_height (Rescale2 float32 unit_has_data unit_rescale
             (9913809 / 16777216) (9913809 / 16777216) small_camera) = Some 13"
    unfolding Rescale2_def w h using z by (simp add: Let_def)
  show ?thesis
    using Downsize_spec [of scenario_camera 2000 2000 float32 unit_has_data unit_rescale] a b r
    by (simp add: d)
qed

text \<open>
  C9. \<open>ComputeRelativePose\<close> returns \<open>R = R2 R1\<^sup>T\<close> and \<open>T = T2 - R T1\<close>; with \<open>R2\<close>
  the identity and \<open>T2\<close> zero it returns \<open>R = R1\<^sup>T\<close> and \<open>T = -R1\<^sup>T T1\<close>.
\<close>

theorem ComputeRelativePose_spec:
  "(let R = [R2 ! 0 * R1 ! 0 + R2 ! 1 * R1 ! 1 + R2 ! 2 * R1 ! 2,
             R2 ! 0 * R1 ! 3 + R2 ! 1 * R1 ! 4 + R2 ! 2 * R1 ! 5,
             R2 ! 0 * R1 ! 6 + R2 ! 1 * R1 ! 7 + R2 ! 2 * R1 ! 8,
             R2 ! 3 * R1 ! 0 + R2 ! 4 * R1 ! 1 + R2 ! 5 * R1 ! 2,
             R2 ! 3 * R1 ! 3 + R2 ! 4 * R1 ! 4 + R2 ! 5 * R1 ! 5,
             R2 ! 3 * R1 ! 6 + R2 ! 4 * R1 ! 7 + R2 ! 5 * R1 ! 8,
             R2 ! 6 * R1 ! 0 + R2 ! 7 * R1 ! 1 + R2 ! 8 * R1 ! 2,
             R2 ! 6 * R1 ! 3 + R2 ! 7 * R1 ! 4 + R2 ! 8 * R1 ! 5,
             R2 ! 6 * R1 ! 6 + R2 ! 7 * R1 ! 7 + R2 ! 8 * R1 ! 8];
        T = [T2 ! 0 - (R ! 0 * T1 ! 0 + R ! 1 * T1 ! 1 + R ! 2 * T1 ! 2),
             T2 ! 1 - (R ! 3 * T1 ! 0 + R ! 4 * T1 ! 1 + R ! 5 * T1 ! 2),
             T2 ! 2 - (R ! 6 * T1 ! 0 + R ! 7 * T1 ! 1 + R ! 8 * T1 ! 2)]
    in ComputeRelativePose R1 T1 R2 T2 = (R, T)
     \<and> R = mat_mul 3 3 3 R2 (transpose_mat 3 3 R1)
     \<and> T = map (\<lambda>i. T2 ! i - mat_mul 3 3 1 R T1 ! i) [0, 1, 2])
   \<and> ComputeRelativePose R1 T1 [1, 0, 0,  0, 1, 0,  0, 0, 1] [0, 0, 0] =
       ([R1 ! 0, R1 ! 3, R1 ! 6,  R1 ! 1, R1 ! 4, R1 ! 7,  R1 ! 2, R1 ! 5, R1 ! 8],
        [- (R1 ! 0 * T1 ! 0 + R1 ! 3 * T1 ! 1 + R1 ! 6 * T1 ! 2),
         - (R1 ! 1 * T1 ! 0 + R1 ! 4 * T1 ! 1 + R1 ! 7 * T1 ! 2),
         - (R1 ! 2 * T1 ! 0 + R1 ! 5 * T1 ! 1 + R1 ! 8 * T1 ! 2)])"
  by (simp add: ComputeRelativePose_def mat_mul_def transpose_mat_def upt_0_3 Let_def
      numeral_2_eq_2 add.assoc)

text \<open>
  C10. After \<open>SetK(K')\<close> with an array of nine entries, \<open>GetKDouble\<close> returns \<open>K'\<close>,
  the builds of \<open>GetPinvPDouble\<close> and \<open>GetPinvP\<close> use \<open>K'\<close>, and \<open>R\<close>, \<open>T\<close>, the last
  row, width, height, path and bitmap are those of the state before: the state
  differs in the field \<open>K\<close> only.
\<close>

theorem SetK_replaces_K:
  assumes "length K' = 9"
  shows "GetKDouble (SetK K' s) = K'
   \<and> GetPinvPDouble (SetK K' s) = Compute4by4ProjectionMatrix K' (m_R s) (m_T s) (m_last_row s)
   \<and> GetPinvP f32 (SetK K' s) =
       (map_option (\<lambda>a. DoubleArrToFloatArr f32 a 16)
          (fst (Compute4by4ProjectionMatrix K' (m_R s) (m_T s) (m_last_row s))),
        map_option (\<lambda>a. DoubleArrToFloatArr f32 a 16)
          (snd (Compute4by4ProjectionMatrix K' (m_R s) (m_T s) (m_last_row s))))
   \<and> m_R (SetK K' s) = m_R s \<and> m_T (SetK K' s) = m_T s
   \<and> m_last_row (SetK K' s) = m_last_row s
   \<and> GetWidth (SetK K' s) = GetWidth s \<and> GetHeight (SetK K' s) = GetHeight s
   \<and> GetPath (SetK K' s) = GetPath s \<and> GetBitmap (SetK K' s) = GetBitmap s
   \<and> SetK K' s = s\<lparr>m_K := K'\<rparr>"
proof -
  have "map (\<lambda>i. K' ! i) [0..<9] = K'"
    using assms map_nth [of K'] by simp
  then show ?thesis
    by (simp add: SetK_def GetKDouble_def GetPinvPDouble_def GetPinvP_def GetWidth_def
        GetHeight_def GetPath_def GetBitmap_def Let_def split: prod.splits)
qed

theorem SetK_replaces_K_witness:
  "length [2000, 0, 600,  0, 2000, 400,  0, 0, 1 :: real] = 9
   \<and> GetKDouble (SetK [2000, 0, 600,  0, 2000, 400,  0, 0, 1] scenario_camera)
       = [2000, 0, 600,  0, 2000, 400,  0, 0, 1]
   \<and> m_R (SetK [2000, 0, 600,  0, 2000, 400,  0, 0, 1] scenario_camera) = [1, 0, 0,  0, 1, 0,  0, 0, 1]
   \<and> fst (GetPinvPDouble (SetK [2000, 0, 600,  0, 2000, 400,  0, 0, 1] scenario_camera))
       = Some [10, 0, 3,  0,  0, 10, 2, 0,  0, 0, 1 / 200, 0,  0, 0, 0, 1 / 200]"
proof -
  have l: "length [2000, 0, 600,  0, 2000, 400,  0, 0, 1 :: real] = 9"
    by simp
  have P: "fst (Compute4by4ProjectionMatrix [2000, 0, 600,  0, 2000, 400,  0, 0, 1]
             (m_R scenario_camera) (m_T scenario_camera) (m_last_row scenario_camera))
           = Some [10, 0, 3,  0,  0, 10, 2, 0,  0, 0, 1 / 200, 0,  0, 0, 0, 1 / 200]"
    by (simp add: eval_defs scenario_camera_def)
  have R: "m_R scenario_camera = [1, 0, 0,  0, 1, 0,  0, 0, 1]"
    by (simp add: scenario_camera_def)
  note th = SetK_replaces_K [OF l, of scenario_camera id]
  have k: "GetKDouble (SetK [2000, 0, 600,  0, 2000, 400,  0, 0, 1] scenario_camera)
             = [2000, 0, 600,  0, 2000, 400,  0, 0, 1]"
    by (rule th [THEN conjunct1])
  have p: "GetPinvPDouble (SetK [2000, 0, 600,  0, 2000, 400,  0, 0, 1] scenario_camera)
             = Compute4by4ProjectionMatrix [2000, 0, 600,  0, 2000, 400,  0, 0, 1]
                 (m_R scenario_camera) (m_T scenario_camera) (m_last_row scenario_camera)"
    by (rule th [THEN conjunct2, THEN conjunct1])
  have r: "m_R (SetK [2000, 0, 600,  0, 2000, 400,  0, 0, 1] scenario_camera)
             = m_R scenario_camera"
    by (rule th [THEN conjunct2, THEN conjunct2, THEN conjunct2, THEN conjunct1])
  have r': "m_R (SetK [2000, 0, 600,  0, 2000, 400,  0, 0, 1] scenario_camera)
              = [1, 0, 0,  0, 1, 0,  0, 0, 1]"
    by (simp only: r R)
  show ?thesis
    by (simp add: k p r' P)
qed

end
